theory Spec2Isabelle
  imports Main
begin

section \<open>The group API handler of go-okta-iam\<close>

text \<open>
  A shallow embedding of \<^verbatim>\<open>internal/handlers/group/group.go\<close>. A handler method is a
  function from the request and the world before the call to the world after it. The
  world holds everything a method can touch: the \<^verbatim>\<open>Handler\<close> struct its receiver
  points to, the output of the loggers, the state of the service objects, and the
  responses written to the \<^verbatim>\<open>http.ResponseWriter\<close>. Two further fields are bookkeeping
  of the run, so that "the service is not invoked" and "the body is not decoded" can be
  stated: the list of service calls made and the list of results of \<^verbatim>\<open>Decode\<close>.
\<close>

subsection \<open>Data of the collaborating packages\<close>

text \<open>
  Go's \<^verbatim>\<open>error\<close> values. The decoder of \<^verbatim>\<open>encoding/json\<close> returns \<^verbatim>\<open>io.EOF\<close>,
  \<^verbatim>\<open>io.ErrUnexpectedEOF\<close>, a \<^verbatim>\<open>*json.SyntaxError\<close> or a \<^verbatim>\<open>*json.UnmarshalTypeError\<close>
  (the JSON kind found, the struct field it was meant for); \<open>ServiceError\<close> is any error
  of the service layer, with its text.
\<close>

datatype error =
    EOF
  | ErrUnexpectedEOF
  | SyntaxError string
  | UnmarshalTypeError string string
  | ServiceError string

text \<open>The request context: opaque to the handler, which only passes it on.\<close>

datatype Context = Ctx nat

text \<open>
  Modelled from the spec: the types of package \<^verbatim>\<open>models\<close>, which is not among the
  sources. A group is a record with at least an identifier and a name; a group member is
  an opaque record, given an identifier here so that concrete values exist; the two
  request payloads carry a name, a string.
\<close>

record Group =
  ID :: string
  Name :: string

record GroupMember =
  MemberID :: string

record CreateGroupRequest =
  Name :: string

record UpdateGroupRequest =
  Name :: string

subsection \<open>The request and its body\<close>

text \<open>
  A JSON value, as \<^verbatim>\<open>encoding/json\<close> sees it after scanning: the members of an object
  in the order of the text, duplicates included; a number by its literal.
\<close>

datatype json =
    JNull
  | JBool bool
  | JNumber string
  | JString string
  | JArray "json list"
  | JObject "(string \<times> json) list"

text \<open>
  The body of a request is a byte stream. \<^verbatim>\<open>Decoder.Decode\<close> first scans one complete
  JSON value off the stream and reports \<^verbatim>\<open>io.EOF\<close> (nothing but white space),
  \<^verbatim>\<open>io.ErrUnexpectedEOF\<close> (a value cut short) or a syntax error if there is none; only
  then does it fill the target. The byte-level
  grammar is not part of this development: a body is given by what that scan yields.
\<close>

datatype Body =
    NoValue error
  | FirstValue json

record Request =
  Context :: Context
  URLParams :: "string \<rightharpoonup> string"
  Body :: Body

text \<open>\<^verbatim>\<open>chi.URLParam(r, key)\<close>: the value of the route parameter, the empty string when
  the route has none of that name.\<close>

definition URLParam :: "Request \<Rightarrow> string \<Rightarrow> string" where
  "URLParam r key = (case URLParams r key of None \<Rightarrow> [] | Some v \<Rightarrow> v)"

subsection \<open>Decoding a body into a request struct\<close>

text \<open>The name of a JSON kind, as \<^verbatim>\<open>UnmarshalTypeError.Value\<close> has it.\<close>

fun kind :: "json \<Rightarrow> string" where
  "kind JNull = ''null''"
| "kind (JBool _) = ''bool''"
| "kind (JNumber _) = ''number''"
| "kind (JString _) = ''string''"
| "kind (JArray _) = ''array''"
| "kind (JObject _) = ''object''"

text \<open>
  A member of an object goes to the struct field whose JSON name equals its key, letter
  case ignored. For the name \<^verbatim>\<open>name\<close> only the ASCII letters fold.
\<close>

definition toLower :: "char \<Rightarrow> char" where
  "toLower c =
     (let n = (of_char c :: nat) in if 65 \<le> n \<and> n \<le> 90 then char_of (n + 32) else c)"

definition EqualFold :: "string \<Rightarrow> string \<Rightarrow> bool" where
  "EqualFold s t \<longleftrightarrow> map toLower s = map toLower t"

text \<open>
  The decoder keeps the first type error it meets (\<^verbatim>\<open>saveError\<close>) and goes on with the
  rest of the value.
\<close>

definition saveError :: "error option \<Rightarrow> error \<Rightarrow> error option" where
  "saveError saved err = (case saved of None \<Rightarrow> Some err | Some e \<Rightarrow> Some e)"

text \<open>
  The members of an object, in order, into a struct whose one field is the string
  \<^verbatim>\<open>Name\<close>: a string is stored, \<^verbatim>\<open>null\<close> leaves the field as it is, any other value
  is a type error; a member of another name is skipped. The state is the field's value
  and the saved error.
\<close>

fun object :: "(string \<times> json) list \<Rightarrow> string \<times> error option \<Rightarrow> string \<times> error option" where
  "object [] st = st"
| "object ((k, v) # kvs) (name, saved) =
     (if EqualFold k ''name'' then
        (case v of
           JString s \<Rightarrow> object kvs (s, saved)
         | JNull \<Rightarrow> object kvs (name, saved)
         | _ \<Rightarrow> object kvs (name, saveError saved (UnmarshalTypeError (kind v) ''name'')))
      else object kvs (name, saved))"

text \<open>
  \<^verbatim>\<open>json.NewDecoder(r.Body).Decode(&req)\<close> on a zero-valued struct, as far as the
  \<^verbatim>\<open>Name\<close> field goes: the error of the scan if there is no value; \<^verbatim>\<open>null\<close> leaves
  the struct untouched; an object is decoded member by member; any other value cannot be
  stored in a struct and is a type error.
\<close>

definition Unmarshal :: "Body \<Rightarrow> error + string" where
  "Unmarshal b =
     (case b of
        NoValue err \<Rightarrow> Inl err
      | FirstValue JNull \<Rightarrow> Inr []
      | FirstValue (JObject kvs) \<Rightarrow>
          (case object kvs ([], None) of
             (name, None) \<Rightarrow> Inr name
           | (name, Some err) \<Rightarrow> Inl err)
      | FirstValue v \<Rightarrow> Inl (UnmarshalTypeError (kind v) []))"

definition Unmarshal_CreateGroupRequest :: "Body \<Rightarrow> error + CreateGroupRequest" where
  "Unmarshal_CreateGroupRequest b =
     (case Unmarshal b of
        Inl err \<Rightarrow> Inl err
      | Inr name \<Rightarrow> Inr \<lparr>CreateGroupRequest.Name = name\<rparr>)"

definition Unmarshal_UpdateGroupRequest :: "Body \<Rightarrow> error + UpdateGroupRequest" where
  "Unmarshal_UpdateGroupRequest b =
     (case Unmarshal b of
        Inl err \<Rightarrow> Inl err
      | Inr name \<Rightarrow> Inr \<lparr>UpdateGroupRequest.Name = name\<rparr>)"

subsection \<open>Logger, service and response writer\<close>

text \<open>
  The arguments of \<^verbatim>\<open>SugaredLogger.Infow\<close> after the message: loose keys and values
  (strings and integers here) and the typed fields \<^verbatim>\<open>zap.Error\<close>, \<^verbatim>\<open>zap.Int\<close> and
  \<^verbatim>\<open>zap.String\<close>.
\<close>

datatype any =
    Str string
  | Num int
  | zap_Error error
  | zap_Int string int
  | zap_String string string

text \<open>The value handed to the response package as \<^verbatim>\<open>data\<close> or \<^verbatim>\<open>details\<close>.\<close>

datatype data =
    nil
  | AGroup Group
  | Groups "Group list"
  | Members "GroupMember list"

text \<open>
  Modelled from the spec: package \<^verbatim>\<open>pkg/response\<close>, which is not among the sources.
  \<^verbatim>\<open>RespondSuccess\<close> writes the status code and the envelope
  \<^verbatim>\<open>{status, message, data}\<close>, \<^verbatim>\<open>RespondError\<close> the status code and the envelope
  \<^verbatim>\<open>{status, code, message, details}\<close>. The envelope's \<^verbatim>\<open>status\<close> member tells the
  two apart and is the constructor here.
\<close>

datatype Envelope =
    SuccessEnvelope string data
  | ErrorEnvelope string string data

record Response =
  httpStatus :: int
  envelope :: Envelope

text \<open>The calls a handler can make on the service, with their arguments.\<close>

datatype call =
    Call_CreateGroup Context CreateGroupRequest
  | Call_GetGroups Context
  | Call_GetGroup Context string
  | Call_UpdateGroup Context string UpdateGroupRequest
  | Call_DeleteGroup Context string
  | Call_GetGroupMembers Context string
  | Call_AddUserToGroup Context string string
  | Call_RemoveUserFromGroup Context string string

text \<open>
  The service layer is not among the sources and the handler does not depend on what it
  does: it is a parameter, the eight methods of \<^verbatim>\<open>*group_service.Service\<close> over a
  state \<open>'s\<close> of their own. A method returns its result, or its error, and the new
  state; a method that returns only an \<^verbatim>\<open>error\<close> returns \<open>None\<close> for \<^verbatim>\<open>nil\<close>.
\<close>

record 's Service =
  svc_CreateGroup :: "Context \<Rightarrow> CreateGroupRequest \<Rightarrow> 's \<Rightarrow> (error + Group) \<times> 's"
  svc_GetGroups :: "Context \<Rightarrow> 's \<Rightarrow> (error + Group list) \<times> 's"
  svc_GetGroup :: "Context \<Rightarrow> string \<Rightarrow> 's \<Rightarrow> (error + Group) \<times> 's"
  svc_UpdateGroup :: "Context \<Rightarrow> string \<Rightarrow> UpdateGroupRequest \<Rightarrow> 's \<Rightarrow> (error + Group) \<times> 's"
  svc_DeleteGroup :: "Context \<Rightarrow> string \<Rightarrow> 's \<Rightarrow> error option \<times> 's"
  svc_GetGroupMembers :: "Context \<Rightarrow> string \<Rightarrow> 's \<Rightarrow> (error + GroupMember list) \<times> 's"
  svc_AddUserToGroup :: "Context \<Rightarrow> string \<Rightarrow> string \<Rightarrow> 's \<Rightarrow> error option \<times> 's"
  svc_RemoveUserFromGroup :: "Context \<Rightarrow> string \<Rightarrow> string \<Rightarrow> 's \<Rightarrow> error option \<times> 's"

subsection \<open>The handler and the world it runs in\<close>

text \<open>
  The struct \<^verbatim>\<open>Handler\<close>: two pointers, to the logger and to the service. Both are
  taken to point to live objects, as in a handler that \<^verbatim>\<open>New\<close> built from a logger and
  a service; a nil pointer, on which the first use would panic, is not modelled. Likewise
  a successful call on the service yields a value.
\<close>

type_synonym ptr = nat

record Handler =
  log :: ptr
  groupsSvc :: ptr

definition New :: "ptr \<Rightarrow> ptr \<Rightarrow> Handler" where
  "New log' svc = \<lparr>log = log', groupsSvc = svc\<rparr>"

text \<open>
  The world: the struct the receiver \<^verbatim>\<open>h\<close> points to; what each logger has put out,
  message and arguments; the state of each service object; the responses written to
  \<^verbatim>\<open>w\<close>; the calls made on the service; and the error each \<^verbatim>\<open>Decode\<close> returned.
\<close>

record 's World =
  this :: Handler
  loggers :: "ptr \<Rightarrow> (string \<times> any list) list"
  services :: "ptr \<Rightarrow> 's"
  written :: "Response list"
  svcCalls :: "call list"
  decoded :: "error option list"

text \<open>\<^verbatim>\<open>h.log.Infow(msg, keysAndValues...)\<close>: one more entry in the output of the logger
  that \<^verbatim>\<open>h.log\<close> points to.\<close>

definition Infow :: "string \<Rightarrow> any list \<Rightarrow> 's World \<Rightarrow> 's World" where
  "Infow msg keysAndValues \<sigma> =
     \<sigma>\<lparr>loggers := (loggers \<sigma>)(log (this \<sigma>) := loggers \<sigma> (log (this \<sigma>)) @ [(msg, keysAndValues)])\<rparr>"

text \<open>A call of a method \<open>m\<close> on the service that \<^verbatim>\<open>h.groupsSvc\<close> points to: the
  method runs on that service's state, and the call is recorded.\<close>

definition invoke :: "call \<Rightarrow> ('s \<Rightarrow> 'a \<times> 's) \<Rightarrow> 's World \<Rightarrow> 'a \<times> 's World" where
  "invoke c m \<sigma> =
     (let p = groupsSvc (this \<sigma>);
          (res, s) = m (services \<sigma> p)
      in (res, \<sigma>\<lparr>services := (services \<sigma>)(p := s), svcCalls := svcCalls \<sigma> @ [c]\<rparr>))"

text \<open>
  Modelled from the spec: \<^verbatim>\<open>response.RespondSuccess\<close> and \<^verbatim>\<open>response.RespondError\<close>
  of package \<^verbatim>\<open>pkg/response\<close>, which is not among the sources. Each writes one response
  to \<^verbatim>\<open>w\<close>: the status code, and the success or the error envelope made of its
  arguments.
\<close>

definition RespondSuccess :: "int \<Rightarrow> string \<Rightarrow> data \<Rightarrow> 's World \<Rightarrow> 's World" where
  "RespondSuccess status message d \<sigma> =
     \<sigma>\<lparr>written := written \<sigma> @ [\<lparr>httpStatus = status, envelope = SuccessEnvelope message d\<rparr>]\<rparr>"

definition RespondError :: "int \<Rightarrow> string \<Rightarrow> string \<Rightarrow> data \<Rightarrow> 's World \<Rightarrow> 's World" where
  "RespondError status code message details \<sigma> =
     \<sigma>\<lparr>written := written \<sigma> @
        [\<lparr>httpStatus = status, envelope = ErrorEnvelope code message details\<rparr>]\<rparr>"

definition respondWithError :: "string \<Rightarrow> int \<Rightarrow> 's World \<Rightarrow> 's World" where
  "respondWithError message statusCode \<sigma> = RespondError statusCode ''API_ERROR'' message nil \<sigma>"

text \<open>\<^verbatim>\<open>json.NewDecoder(r.Body).Decode(&req)\<close> in a run: the result, and the error
  returned (\<open>None\<close> for \<^verbatim>\<open>nil\<close>) recorded.\<close>

definition recordDecode :: "error + 'a \<Rightarrow> 's World \<Rightarrow> 's World" where
  "recordDecode res \<sigma> =
     \<sigma>\<lparr>decoded := decoded \<sigma> @ [case res of Inl err \<Rightarrow> Some err | Inr _ \<Rightarrow> None]\<rparr>"

definition Decode_CreateGroupRequest ::
  "Request \<Rightarrow> 's World \<Rightarrow> (error + CreateGroupRequest) \<times> 's World" where
  "Decode_CreateGroupRequest r \<sigma> =
     (let res = Unmarshal_CreateGroupRequest (Body r) in (res, recordDecode res \<sigma>))"

definition Decode_UpdateGroupRequest ::
  "Request \<Rightarrow> 's World \<Rightarrow> (error + UpdateGroupRequest) \<times> 's World" where
  "Decode_UpdateGroupRequest r \<sigma> =
     (let res = Unmarshal_UpdateGroupRequest (Body r) in (res, recordDecode res \<sigma>))"

definition StatusOK :: int where "StatusOK = 200"
definition StatusCreated :: int where "StatusCreated = 201"
definition StatusBadRequest :: int where "StatusBadRequest = 400"
definition StatusInternalServerError :: int where "StatusInternalServerError = 500"

text \<open>\<^verbatim>\<open>fmt.Sprintf("Group '%s' created successfully", name)\<close>.\<close>

definition Sprintf_created :: "string \<Rightarrow> string" where
  "Sprintf_created name = ''Group '' @ [CHR 0x27] @ name @ [CHR 0x27] @ '' created successfully''"

subsection \<open>The calls on \<^verbatim>\<open>h.groupsSvc\<close>\<close>

definition groupsSvc_CreateGroup ::
  "'s Service \<Rightarrow> Context \<Rightarrow> CreateGroupRequest \<Rightarrow> 's World \<Rightarrow> (error + Group) \<times> 's World" where
  "groupsSvc_CreateGroup svc ctx req =
     invoke (Call_CreateGroup ctx req) (svc_CreateGroup svc ctx req)"

definition groupsSvc_GetGroups ::
  "'s Service \<Rightarrow> Context \<Rightarrow> 's World \<Rightarrow> (error + Group list) \<times> 's World" where
  "groupsSvc_GetGroups svc ctx = invoke (Call_GetGroups ctx) (svc_GetGroups svc ctx)"

definition groupsSvc_GetGroup ::
  "'s Service \<Rightarrow> Context \<Rightarrow> string \<Rightarrow> 's World \<Rightarrow> (error + Group) \<times> 's World" where
  "groupsSvc_GetGroup svc ctx groupID =
     invoke (Call_GetGroup ctx groupID) (svc_GetGroup svc ctx groupID)"

definition groupsSvc_UpdateGroup ::
  "'s Service \<Rightarrow> Context \<Rightarrow> string \<Rightarrow> UpdateGroupRequest \<Rightarrow> 's World
     \<Rightarrow> (error + Group) \<times> 's World" where
  "groupsSvc_UpdateGroup svc ctx groupID req =
     invoke (Call_UpdateGroup ctx groupID req) (svc_UpdateGroup svc ctx groupID req)"

definition groupsSvc_DeleteGroup ::
  "'s Service \<Rightarrow> Context \<Rightarrow> string \<Rightarrow> 's World \<Rightarrow> error option \<times> 's World" where
  "groupsSvc_DeleteGroup svc ctx groupID =
     invoke (Call_DeleteGroup ctx groupID) (svc_DeleteGroup svc ctx groupID)"

definition groupsSvc_GetGroupMembers ::
  "'s Service \<Rightarrow> Context \<Rightarrow> string \<Rightarrow> 's World \<Rightarrow> (error + GroupMember list) \<times> 's World" where
  "groupsSvc_GetGroupMembers svc ctx groupID =
     invoke (Call_GetGroupMembers ctx groupID) (svc_GetGroupMembers svc ctx groupID)"

definition groupsSvc_AddUserToGroup ::
  "'s Service \<Rightarrow> Context \<Rightarrow> string \<Rightarrow> string \<Rightarrow> 's World \<Rightarrow> error option \<times> 's World" where
  "groupsSvc_AddUserToGroup svc ctx groupID userID =
     invoke (Call_AddUserToGroup ctx groupID userID) (svc_AddUserToGroup svc ctx groupID userID)"

definition groupsSvc_RemoveUserFromGroup ::
  "'s Service \<Rightarrow> Context \<Rightarrow> string \<Rightarrow> string \<Rightarrow> 's World \<Rightarrow> error option \<times> 's World" where
  "groupsSvc_RemoveUserFromGroup svc ctx groupID userID =
     invoke (Call_RemoveUserFromGroup ctx groupID userID)
       (svc_RemoveUserFromGroup svc ctx groupID userID)"

subsection \<open>The eight handler methods\<close>

text \<open>
  Each method follows its Go text statement by statement; \<open>\<sigma>\<close> is rebound by every
  statement with an effect. The request struct goes to the service by value: a service
  that writes through the pointer it receives could change only the name logged on the
  failure path of \<^verbatim>\<open>CreateGroup\<close>.
\<close>

definition CreateGroup :: "'s Service \<Rightarrow> Request \<Rightarrow> 's World \<Rightarrow> 's World" where
  "CreateGroup svc r \<sigma> =
     (let \<sigma> = Infow ''Create group request received'' [] \<sigma>;
          (res, \<sigma>) = Decode_CreateGroupRequest r \<sigma>
      in case res of
           Inl err \<Rightarrow>
             (let \<sigma> = Infow ''Failed to decode create group request'' [zap_Error err] \<sigma>
              in respondWithError ''Invalid request body'' StatusBadRequest \<sigma>)
         | Inr req \<Rightarrow>
             (let (res, \<sigma>) = groupsSvc_CreateGroup svc (Context r) req \<sigma>
              in case res of
                   Inl err \<Rightarrow>
                     (let \<sigma> = Infow ''Failed to create group''
                                [zap_Error err, Str ''name'', Str (CreateGroupRequest.Name req)] \<sigma>
                      in respondWithError ''Failed to create group'' StatusInternalServerError \<sigma>)
                 | Inr group' \<Rightarrow>
                     (let \<sigma> = Infow ''Group created successfully''
                                [Str ''groupId'', Str (ID group'), Str ''name'', Str (Group.Name group')] \<sigma>
                      in RespondSuccess StatusCreated (Sprintf_created (Group.Name group'))
                           (AGroup group') \<sigma>)))"

definition GetGroups :: "'s Service \<Rightarrow> Request \<Rightarrow> 's World \<Rightarrow> 's World" where
  "GetGroups svc r \<sigma> =
     (let \<sigma> = Infow ''Get groups request received'' [] \<sigma>;
          (res, \<sigma>) = groupsSvc_GetGroups svc (Context r) \<sigma>
      in case res of
           Inl err \<Rightarrow>
             (let \<sigma> = Infow ''Failed to get groups'' [zap_Error err] \<sigma>
              in respondWithError ''Failed to retrieve groups'' StatusInternalServerError \<sigma>)
         | Inr groups \<Rightarrow>
             (let \<sigma> = Infow ''Groups retrieved successfully''
                        [zap_Int ''count'' (int (length groups))] \<sigma>
              in RespondSuccess StatusOK ''Success'' (Groups groups) \<sigma>))"

definition GetGroup :: "'s Service \<Rightarrow> Request \<Rightarrow> 's World \<Rightarrow> 's World" where
  "GetGroup svc r \<sigma> =
     (let groupID = URLParam r ''groupID'' in
      if groupID = [] then respondWithError ''Group ID is required'' StatusBadRequest \<sigma>
      else
        (let \<sigma> = Infow ''Get group request received'' [Str ''groupId'', Str groupID] \<sigma>;
             (res, \<sigma>) = groupsSvc_GetGroup svc (Context r) groupID \<sigma>
         in case res of
              Inl err \<Rightarrow>
                (let \<sigma> = Infow ''Failed to get group''
                           [zap_Error err, Str ''groupId'', Str groupID] \<sigma>
                 in respondWithError ''Failed to retrieve group'' StatusInternalServerError \<sigma>)
            | Inr group' \<Rightarrow>
                (let \<sigma> = Infow ''Group retrieved successfully'' [zap_String ''groupId'' groupID] \<sigma>
                 in RespondSuccess StatusOK ''Success'' (AGroup group') \<sigma>)))"

definition UpdateGroup :: "'s Service \<Rightarrow> Request \<Rightarrow> 's World \<Rightarrow> 's World" where
  "UpdateGroup svc r \<sigma> =
     (let groupID = URLParam r ''groupID'' in
      if groupID = [] then respondWithError ''Group ID is required'' StatusBadRequest \<sigma>
      else
        (let \<sigma> = Infow ''Update group request received'' [Str ''groupId'', Str groupID] \<sigma>;
             (res, \<sigma>) = Decode_UpdateGroupRequest r \<sigma>
         in case res of
              Inl err \<Rightarrow>
                (let \<sigma> = Infow ''Failed to decode update group request'' [zap_Error err] \<sigma>
                 in respondWithError ''Invalid request body'' StatusBadRequest \<sigma>)
            | Inr req \<Rightarrow>
                (let (res, \<sigma>) = groupsSvc_UpdateGroup svc (Context r) groupID req \<sigma>
                 in case res of
                      Inl err \<Rightarrow>
                        (let \<sigma> = Infow ''Failed to update group''
                                   [zap_Error err, Str ''groupId'', Str groupID] \<sigma>
                         in respondWithError ''Failed to update group''
                              StatusInternalServerError \<sigma>)
                    | Inr group' \<Rightarrow>
                        (let \<sigma> = Infow ''Group updated successfully''
                                   [Str ''groupId'', Str groupID] \<sigma>
                         in RespondSuccess StatusOK ''Group updated successfully''
                              (AGroup group') \<sigma>))))"

definition DeleteGroup :: "'s Service \<Rightarrow> Request \<Rightarrow> 's World \<Rightarrow> 's World" where
  "DeleteGroup svc r \<sigma> =
     (let groupID = URLParam r ''groupID'' in
      if groupID = [] then respondWithError ''Group ID is required'' StatusBadRequest \<sigma>
      else
        (let \<sigma> = Infow ''Delete group request received'' [Str ''groupId'', Str groupID] \<sigma>;
             (res, \<sigma>) = groupsSvc_DeleteGroup svc (Context r) groupID \<sigma>
         in case res of
              Some err \<Rightarrow>
                (let \<sigma> = Infow ''Failed to delete group''
                           [zap_Error err, Str ''groupId'', Str groupID] \<sigma>
                 in respondWithError ''Failed to delete group'' StatusInternalServerError \<sigma>)
            | None \<Rightarrow>
                (let \<sigma> = Infow ''Group deleted successfully'' [Str ''groupId'', Str groupID] \<sigma>
                 in RespondSuccess StatusOK ''Group deleted successfully'' nil \<sigma>)))"

definition GetGroupMembers :: "'s Service \<Rightarrow> Request \<Rightarrow> 's World \<Rightarrow> 's World" where
  "GetGroupMembers svc r \<sigma> =
     (let groupID = URLParam r ''groupID'' in
      if groupID = [] then respondWithError ''Group ID is required'' StatusBadRequest \<sigma>
      else
        (let \<sigma> = Infow ''Get group members request received'' [Str ''groupId'', Str groupID] \<sigma>;
             (res, \<sigma>) = groupsSvc_GetGroupMembers svc (Context r) groupID \<sigma>
         in case res of
              Inl err \<Rightarrow>
                (let \<sigma> = Infow ''Failed to get group members''
                           [zap_Error err, Str ''groupId'', Str groupID] \<sigma>
                 in respondWithError ''Failed to retrieve group members''
                      StatusInternalServerError \<sigma>)
            | Inr members \<Rightarrow>
                (let \<sigma> = Infow ''Group members retrieved successfully''
                           [Str ''groupId'', Str groupID,
                            Str ''memberCount'', Num (int (length members))] \<sigma>
                 in RespondSuccess StatusOK ''Success'' (Members members) \<sigma>)))"

definition AddUserToGroup :: "'s Service \<Rightarrow> Request \<Rightarrow> 's World \<Rightarrow> 's World" where
  "AddUserToGroup svc r \<sigma> =
     (let groupID = URLParam r ''groupID'';
          userID = URLParam r ''userID''
      in if groupID = [] \<or> userID = [] then
           respondWithError ''Both Group ID and User ID are required'' StatusBadRequest \<sigma>
         else
           (let \<sigma> = Infow ''Add user to group request received''
                      [Str ''groupId'', Str groupID, Str ''userId'', Str userID] \<sigma>;
                (res, \<sigma>) = groupsSvc_AddUserToGroup svc (Context r) groupID userID \<sigma>
            in case res of
                 Some err \<Rightarrow>
                   (let \<sigma> = Infow ''Failed to add user to group''
                              [zap_Error err, Str ''groupId'', Str groupID,
                               Str ''userId'', Str userID] \<sigma>
                    in respondWithError ''Failed to add user to group''
                         StatusInternalServerError \<sigma>)
               | None \<Rightarrow>
                   (let \<sigma> = Infow ''User added to group successfully''
                              [Str ''groupId'', Str groupID, Str ''userId'', Str userID] \<sigma>
                    in RespondSuccess StatusOK ''User added to group successfully'' nil \<sigma>)))"

definition RemoveUserFromGroup :: "'s Service \<Rightarrow> Request \<Rightarrow> 's World \<Rightarrow> 's World" where
  "RemoveUserFromGroup svc r \<sigma> =
     (let groupID = URLParam r ''groupID'';
          userID = URLParam r ''userID''
      in if groupID = [] \<or> userID = [] then
           respondWithError ''Both Group ID and User ID are required'' StatusBadRequest \<sigma>
         else
           (let \<sigma> = Infow ''Remove user from group request received''
                      [Str ''groupId'', Str groupID, Str ''userId'', Str userID] \<sigma>;
                (res, \<sigma>) = groupsSvc_RemoveUserFromGroup svc (Context r) groupID userID \<sigma>
            in case res of
                 Some err \<Rightarrow>
                   (let \<sigma> = Infow ''Failed to remove user from group''
                              [zap_Error err, Str ''groupId'', Str groupID,
                               Str ''userId'', Str userID] \<sigma>
                    in respondWithError ''Failed to remove user from group''
                         StatusInternalServerError \<sigma>)
               | None \<Rightarrow>
                   (let \<sigma> = Infow ''User removed from group successfully''
                              [Str ''groupId'', Str groupID, Str ''userId'', Str userID] \<sigma>
                    in RespondSuccess StatusOK ''User removed from group successfully'' nil \<sigma>)))"

subsection \<open>The methods under one name\<close>

text \<open>
  The router that maps paths to the methods is not part of the file. To speak of "every
  operation", the eight methods are indexed by the operation they implement.
\<close>

datatype operation =
    OpCreateGroup
  | OpGetGroups
  | OpGetGroup
  | OpUpdateGroup
  | OpDeleteGroup
  | OpGetGroupMembers
  | OpAddUserToGroup
  | OpRemoveUserFromGroup

fun serve :: "operation \<Rightarrow> 's Service \<Rightarrow> Request \<Rightarrow> 's World \<Rightarrow> 's World" where
  "serve OpCreateGroup = CreateGroup"
| "serve OpGetGroups = GetGroups"
| "serve OpGetGroup = GetGroup"
| "serve OpUpdateGroup = UpdateGroup"
| "serve OpDeleteGroup = DeleteGroup"
| "serve OpGetGroupMembers = GetGroupMembers"
| "serve OpAddUserToGroup = AddUserToGroup"
| "serve OpRemoveUserFromGroup = RemoveUserFromGroup"

text \<open>A sequence of invocations on one handler, each in the world the one before left.\<close>

fun serveAll :: "'s Service \<Rightarrow> (operation \<times> Request) list \<Rightarrow> 's World \<Rightarrow> 's World" where
  "serveAll svc [] \<sigma> = \<sigma>"
| "serveAll svc ((op, r) # rest) \<sigma> = serveAll svc rest (serve op svc r \<sigma>)"

text \<open>The state of the service that \<^verbatim>\<open>h.groupsSvc\<close> points to, and the responses an
  invocation started in \<open>\<sigma>\<close> has added by the time the world is \<open>\<sigma>'\<close>.\<close>

abbreviation svcState :: "'s World \<Rightarrow> 's" where
  "svcState \<sigma> \<equiv> services \<sigma> (groupsSvc (this \<sigma>))"

definition responses :: "'s World \<Rightarrow> 's World \<Rightarrow> Response list" where
  "responses \<sigma> \<sigma>' = drop (length (written \<sigma>)) (written \<sigma>')"

subsection \<open>Test doubles and sample inputs\<close>

text \<open>
  Two services to run the handler on: one whose every call succeeds, one whose every call
  fails with a given error. Their state counts the calls served.
\<close>

definition stubService :: "nat Service" where
  "stubService = \<lparr>
     svc_CreateGroup =
       (\<lambda>ctx req n. (Inr \<lparr>ID = ''g1'', Name = CreateGroupRequest.Name req\<rparr>, Suc n)),
     svc_GetGroups = (\<lambda>ctx n. (Inr [\<lparr>ID = ''g1'', Name = ''Engineering''\<rparr>], Suc n)),
     svc_GetGroup = (\<lambda>ctx groupID n. (Inr \<lparr>ID = groupID, Name = ''Engineering''\<rparr>, Suc n)),
     svc_UpdateGroup =
       (\<lambda>ctx groupID req n.
          (Inr \<lparr>ID = groupID, Name = UpdateGroupRequest.Name req\<rparr>, Suc n)),
     svc_DeleteGroup = (\<lambda>ctx groupID n. (None, Suc n)),
     svc_GetGroupMembers = (\<lambda>ctx groupID n. (Inr [\<lparr>MemberID = ''u1''\<rparr>], Suc n)),
     svc_AddUserToGroup = (\<lambda>ctx groupID userID n. (None, Suc n)),
     svc_RemoveUserFromGroup = (\<lambda>ctx groupID userID n. (None, Suc n))\<rparr>"

definition failingService :: "error \<Rightarrow> nat Service" where
  "failingService err = \<lparr>
     svc_CreateGroup = (\<lambda>ctx req n. (Inl err, Suc n)),
     svc_GetGroups = (\<lambda>ctx n. (Inl err, Suc n)),
     svc_GetGroup = (\<lambda>ctx groupID n. (Inl err, Suc n)),
     svc_UpdateGroup = (\<lambda>ctx groupID req n. (Inl err, Suc n)),
     svc_DeleteGroup = (\<lambda>ctx groupID n. (Some err, Suc n)),
     svc_GetGroupMembers = (\<lambda>ctx groupID n. (Inl err, Suc n)),
     svc_AddUserToGroup = (\<lambda>ctx groupID userID n. (Some err, Suc n)),
     svc_RemoveUserFromGroup = (\<lambda>ctx groupID userID n. (Some err, Suc n))\<rparr>"

text \<open>A fresh world around a handler built by \<^verbatim>\<open>New\<close>, and a request with the given
  route parameters and body.\<close>

definition world0 :: "nat World" where
  "world0 = \<lparr>this = New 1 2, loggers = (\<lambda>p. []), services = (\<lambda>p. 0),
              written = [], svcCalls = [], decoded = []\<rparr>"

definition request :: "(string \<times> string) list \<Rightarrow> Body \<Rightarrow> Request" where
  "request params b = \<lparr>Context = Ctx 0, URLParams = map_of params, Body = b\<rparr>"

text \<open>The bodies \<^verbatim>\<open>{"name":"Engineering"}\<close>, \<^verbatim>\<open>{}\<close> and \<^verbatim>\<open>{name}\<close>; on the last the
  scan stops at the \<^verbatim>\<open>n\<close>.\<close>

definition body_engineering :: Body where
  "body_engineering = FirstValue (JObject [(''name'', JString ''Engineering'')])"

definition body_empty_object :: Body where
  "body_empty_object = FirstValue (JObject [])"

definition body_malformed :: Body where
  "body_malformed =
     NoValue (SyntaxError ''invalid character 'n' looking for beginning of object key string'')"

text \<open>Requests: one with both route parameters and a good body; one on a route without
  parameters; \<^verbatim>\<open>PUT /groups/g1/members/\<close>, the user missing; one with a body that is
  not JSON.\<close>

definition request_ok :: Request where
  "request_ok = request [(''groupID'', ''g1''), (''userID'', ''u1'')] body_engineering"

definition request_no_params :: Request where
  "request_no_params = request [] body_engineering"

definition request_no_user :: Request where
  "request_no_user = request [(''groupID'', ''g1''), (''userID'', [])] body_engineering"

definition request_bad_body :: Request where
  "request_bad_body = request [(''groupID'', ''g1''), (''userID'', ''u1'')] body_malformed"

text \<open>Two more: no group and a body that is not JSON; a group and the body \<^verbatim>\<open>{}\<close>.\<close>

definition request_no_params_bad_body :: Request where
  "request_no_params_bad_body = request [] body_malformed"

definition request_empty_object :: Request where
  "request_empty_object = request [(''groupID'', ''g1'')] body_empty_object"

section \<open>Properties of the handler\<close>

lemmas steps =
  Let_def Infow_def invoke_def RespondSuccess_def RespondError_def respondWithError_def
  recordDecode_def Decode_CreateGroupRequest_def Decode_UpdateGroupRequest_def
  groupsSvc_CreateGroup_def groupsSvc_GetGroups_def groupsSvc_GetGroup_def
  groupsSvc_UpdateGroup_def groupsSvc_DeleteGroup_def groupsSvc_GetGroupMembers_def
  groupsSvc_AddUserToGroup_def groupsSvc_RemoveUserFromGroup_def
  StatusOK_def StatusCreated_def StatusBadRequest_def StatusInternalServerError_def
  Sprintf_created_def

lemmas methods =
  CreateGroup_def GetGroups_def GetGroup_def UpdateGroup_def DeleteGroup_def
  GetGroupMembers_def AddUserToGroup_def RemoveUserFromGroup_def

lemmas samples =
  stubService_def failingService_def world0_def request_def New_def URLParam_def
  body_engineering_def body_empty_object_def body_malformed_def
  Unmarshal_CreateGroupRequest_def Unmarshal_UpdateGroupRequest_def Unmarshal_def
  EqualFold_def toLower_def saveError_def

text \<open>What the sample inputs evaluate to.\<close>

lemma request_ok_body:
  "Unmarshal_CreateGroupRequest (Body request_ok) =
     Inr \<lparr>CreateGroupRequest.Name = ''Engineering''\<rparr>"
  "Unmarshal_UpdateGroupRequest (Body request_ok) =
     Inr \<lparr>UpdateGroupRequest.Name = ''Engineering''\<rparr>"
  by (simp_all add: request_ok_def samples)

lemma request_ok_params:
  "URLParam request_ok ''groupID'' = ''g1''"
  "URLParam request_ok ''userID'' = ''u1''"
  by (simp_all add: request_ok_def samples)

lemma request_no_params_ids:
  "URLParam request_no_params ''groupID'' = []"
  "URLParam request_no_params ''userID'' = []"
  by (simp_all add: request_no_params_def samples)

lemma request_no_user_ids:
  "URLParam request_no_user ''groupID'' = ''g1''"
  "URLParam request_no_user ''userID'' = []"
  by (simp_all add: request_no_user_def samples)

lemma world0_fields:
  "written world0 = []" "svcCalls world0 = []" "decoded world0 = []" "services world0 p = 0"
  "this world0 = \<lparr>log = 1, groupsSvc = 2\<rparr>"
  by (simp_all add: world0_def New_def)

subsection \<open>Success\<close>

text \<open>
  C1. Whenever the call on the service succeeds, the method writes one response: status
  201 for \<^verbatim>\<open>CreateGroup\<close> and 200 for the other seven, with a success envelope whose
  data is the value the service returned, unchanged: the group for \<^verbatim>\<open>CreateGroup\<close>,
  \<^verbatim>\<open>GetGroup\<close> and \<^verbatim>\<open>UpdateGroup\<close>, the list of groups for \<^verbatim>\<open>GetGroups\<close>, the list
  of members for \<^verbatim>\<open>GetGroupMembers\<close>, and nil for \<^verbatim>\<open>DeleteGroup\<close>,
  \<^verbatim>\<open>AddUserToGroup\<close> and \<^verbatim>\<open>RemoveUserFromGroup\<close>. The message of \<^verbatim>\<open>CreateGroup\<close> is
  \<^verbatim>\<open>Group '<name>' created successfully\<close> with the name of the returned group. The
  service is called with the decoded request and the route parameters, in the state it
  was left in, so each hypothesis names that call.
\<close>

theorem success_response:
  "(Unmarshal_CreateGroupRequest (Body r) = Inr creq \<and>
    svc_CreateGroup svc (Context r) creq (svcState \<sigma>) = (Inr g1, s1) \<longrightarrow>
      written (CreateGroup svc r \<sigma>) = written \<sigma> @
        [\<lparr>httpStatus = 201,
          envelope = SuccessEnvelope
            (''Group '' @ [CHR 0x27] @ Group.Name g1 @ [CHR 0x27] @ '' created successfully'')
            (AGroup g1)\<rparr>]) \<and>
   (svc_GetGroups svc (Context r) (svcState \<sigma>) = (Inr gs, s2) \<longrightarrow>
      written (GetGroups svc r \<sigma>) = written \<sigma> @
        [\<lparr>httpStatus = 200, envelope = SuccessEnvelope ''Success'' (Groups gs)\<rparr>]) \<and>
   (URLParam r ''groupID'' \<noteq> [] \<and>
    svc_GetGroup svc (Context r) (URLParam r ''groupID'') (svcState \<sigma>) = (Inr g3, s3) \<longrightarrow>
      written (GetGroup svc r \<sigma>) = written \<sigma> @
        [\<lparr>httpStatus = 200, envelope = SuccessEnvelope ''Success'' (AGroup g3)\<rparr>]) \<and>
   (URLParam r ''groupID'' \<noteq> [] \<and> Unmarshal_UpdateGroupRequest (Body r) = Inr ureq \<and>
    svc_UpdateGroup svc (Context r) (URLParam r ''groupID'') ureq (svcState \<sigma>) = (Inr g4, s4) \<longrightarrow>
      written (UpdateGroup svc r \<sigma>) = written \<sigma> @
        [\<lparr>httpStatus = 200,
          envelope = SuccessEnvelope ''Group updated successfully'' (AGroup g4)\<rparr>]) \<and>
   (URLParam r ''groupID'' \<noteq> [] \<and>
    svc_DeleteGroup svc (Context r) (URLParam r ''groupID'') (svcState \<sigma>) = (None, s5) \<longrightarrow>
      written (DeleteGroup svc r \<sigma>) = written \<sigma> @
        [\<lparr>httpStatus = 200, envelope = SuccessEnvelope ''Group deleted successfully'' nil\<rparr>]) \<and>
   (URLParam r ''groupID'' \<noteq> [] \<and>
    svc_GetGroupMembers svc (Context r) (URLParam r ''groupID'') (svcState \<sigma>) = (Inr ms, s6) \<longrightarrow>
      written (GetGroupMembers svc r \<sigma>) = written \<sigma> @
        [\<lparr>httpStatus = 200, envelope = SuccessEnvelope ''Success'' (Members ms)\<rparr>]) \<and>
   (URLParam r ''groupID'' \<noteq> [] \<and> URLParam r ''userID'' \<noteq> [] \<and>
    svc_AddUserToGroup svc (Context r) (URLParam r ''groupID'') (URLParam r ''userID'')
      (svcState \<sigma>) = (None, s7) \<longrightarrow>
      written (AddUserToGroup svc r \<sigma>) = written \<sigma> @
        [\<lparr>httpStatus = 200,
          envelope = SuccessEnvelope ''User added to group successfully'' nil\<rparr>]) \<and>
   (URLParam r ''groupID'' \<noteq> [] \<and> URLParam r ''userID'' \<noteq> [] \<and>
    svc_RemoveUserFromGroup svc (Context r) (URLParam r ''groupID'') (URLParam r ''userID'')
      (svcState \<sigma>) = (None, s8) \<longrightarrow>
      written (RemoveUserFromGroup svc r \<sigma>) = written \<sigma> @
        [\<lparr>httpStatus = 200,
          envelope = SuccessEnvelope ''User removed from group successfully'' nil\<rparr>])"
  by (simp add: methods steps)

text \<open>On the stub service, with the body \<^verbatim>\<open>{"name":"Engineering"}\<close>: the scenario of
  the specification for \<^verbatim>\<open>POST /groups\<close>, and the other seven operations.\<close>

theorem success_response_witness:
  "written (CreateGroup stubService request_ok world0) =
     [\<lparr>httpStatus = 201,
       envelope = SuccessEnvelope ''Group 'Engineering' created successfully''
         (AGroup \<lparr>ID = ''g1'', Name = ''Engineering''\<rparr>)\<rparr>] \<and>
   written (GetGroups stubService request_ok world0) =
     [\<lparr>httpStatus = 200,
       envelope = SuccessEnvelope ''Success'' (Groups [\<lparr>ID = ''g1'', Name = ''Engineering''\<rparr>])\<rparr>] \<and>
   written (GetGroup stubService request_ok world0) =
     [\<lparr>httpStatus = 200,
       envelope = SuccessEnvelope ''Success'' (AGroup \<lparr>ID = ''g1'', Name = ''Engineering''\<rparr>)\<rparr>] \<and>
   written (UpdateGroup stubService request_ok world0) =
     [\<lparr>httpStatus = 200,
       envelope = SuccessEnvelope ''Group updated successfully''
         (AGroup \<lparr>ID = ''g1'', Name = ''Engineering''\<rparr>)\<rparr>] \<and>
   written (DeleteGroup stubService request_ok world0) =
     [\<lparr>httpStatus = 200, envelope = SuccessEnvelope ''Group deleted successfully'' nil\<rparr>] \<and>
   written (GetGroupMembers stubService request_ok world0) =
     [\<lparr>httpStatus = 200, envelope = SuccessEnvelope ''Success'' (Members [\<lparr>MemberID = ''u1''\<rparr>])\<rparr>] \<and>
   written (AddUserToGroup stubService request_ok world0) =
     [\<lparr>httpStatus = 200, envelope = SuccessEnvelope ''User added to group successfully'' nil\<rparr>] \<and>
   written (RemoveUserFromGroup stubService request_ok world0) =
     [\<lparr>httpStatus = 200,
       envelope = SuccessEnvelope ''User removed from group successfully'' nil\<rparr>]"
  using success_response [of request_ok "\<lparr>CreateGroupRequest.Name = ''Engineering''\<rparr>"
      stubService world0
      "\<lparr>ID = ''g1'', Name = ''Engineering''\<rparr>" 1 "[\<lparr>ID = ''g1'', Name = ''Engineering''\<rparr>]" 1
      "\<lparr>ID = ''g1'', Name = ''Engineering''\<rparr>" 1 "\<lparr>UpdateGroupRequest.Name = ''Engineering''\<rparr>"
      "\<lparr>ID = ''g1'', Name = ''Engineering''\<rparr>" 1 1 "[\<lparr>MemberID = ''u1''\<rparr>]" 1 1 1]
  by (simp add: request_ok_body request_ok_params world0_fields stubService_def)

subsection \<open>Failure of the service\<close>

text \<open>
  C2. Whenever the call on the service returns an error, the method writes one response:
  status 500 and an error envelope with the fixed message of the operation and nil
  details. For \<^verbatim>\<open>DeleteGroup\<close> the message is \<^verbatim>\<open>Failed to delete group\<close>.
\<close>

theorem failure_response:
  "(Unmarshal_CreateGroupRequest (Body r) = Inr creq \<and>
    svc_CreateGroup svc (Context r) creq (svcState \<sigma>) = (Inl e1, s1) \<longrightarrow>
      written (CreateGroup svc r \<sigma>) = written \<sigma> @
        [\<lparr>httpStatus = 500, envelope = ErrorEnvelope ''API_ERROR'' ''Failed to create group'' nil\<rparr>]) \<and>
   (svc_GetGroups svc (Context r) (svcState \<sigma>) = (Inl e2, s2) \<longrightarrow>
      written (GetGroups svc r \<sigma>) = written \<sigma> @
        [\<lparr>httpStatus = 500, envelope = ErrorEnvelope ''API_ERROR'' ''Failed to retrieve groups'' nil\<rparr>]) \<and>
   (URLParam r ''groupID'' \<noteq> [] \<and>
    svc_GetGroup svc (Context r) (URLParam r ''groupID'') (svcState \<sigma>) = (Inl e3, s3) \<longrightarrow>
      written (GetGroup svc r \<sigma>) = written \<sigma> @
        [\<lparr>httpStatus = 500, envelope = ErrorEnvelope ''API_ERROR'' ''Failed to retrieve group'' nil\<rparr>]) \<and>
   (URLParam r ''groupID'' \<noteq> [] \<and> Unmarshal_UpdateGroupRequest (Body r) = Inr ureq \<and>
    svc_UpdateGroup svc (Context r) (URLParam r ''groupID'') ureq (svcState \<sigma>) = (Inl e4, s4) \<longrightarrow>
      written (UpdateGroup svc r \<sigma>) = written \<sigma> @
        [\<lparr>httpStatus = 500, envelope = ErrorEnvelope ''API_ERROR'' ''Failed to update group'' nil\<rparr>]) \<and>
   (URLParam r ''groupID'' \<noteq> [] \<and>
    svc_DeleteGroup svc (Context r) (URLParam r ''groupID'') (svcState \<sigma>) = (Some e5, s5) \<longrightarrow>
      written (DeleteGroup svc r \<sigma>) = written \<sigma> @
        [\<lparr>httpStatus = 500, envelope = ErrorEnvelope ''API_ERROR'' ''Failed to delete group'' nil\<rparr>]) \<and>
   (URLParam r ''groupID'' \<noteq> [] \<and>
    svc_GetGroupMembers svc (Context r) (URLParam r ''groupID'') (svcState \<sigma>) = (Inl e6, s6) \<longrightarrow>
      written (GetGroupMembers svc r \<sigma>) = written \<sigma> @
        [\<lparr>httpStatus = 500, envelope = ErrorEnvelope ''API_ERROR'' ''Failed to retrieve group members'' nil\<rparr>]) \<and>
   (URLParam r ''groupID'' \<noteq> [] \<and> URLParam r ''userID'' \<noteq> [] \<and>
    svc_AddUserToGroup svc (Context r) (URLParam r ''groupID'') (URLParam r ''userID'')
      (svcState \<sigma>) = (Some e7, s7) \<longrightarrow>
      written (AddUserToGroup svc r \<sigma>) = written \<sigma> @
        [\<lparr>httpStatus = 500, envelope = ErrorEnvelope ''API_ERROR'' ''Failed to add user to group'' nil\<rparr>]) \<and>
   (URLParam r ''groupID'' \<noteq> [] \<and> URLParam r ''userID'' \<noteq> [] \<and>
    svc_RemoveUserFromGroup svc (Context r) (URLParam r ''groupID'') (URLParam r ''userID'')
      (svcState \<sigma>) = (Some e8, s8) \<longrightarrow>
      written (RemoveUserFromGroup svc r \<sigma>) = written \<sigma> @
        [\<lparr>httpStatus = 500, envelope = ErrorEnvelope ''API_ERROR'' ''Failed to remove user from group'' nil\<rparr>])"
  by (simp add: methods steps)

text \<open>On a service whose every call fails with the error \<^verbatim>\<open>okta: 503\<close>; the scenario
  of the specification for \<^verbatim>\<open>DELETE /groups/g1\<close> is the fifth.\<close>

theorem failure_response_witness:
  "written (CreateGroup (failingService (ServiceError ''okta: 503'')) request_ok world0) =
     [\<lparr>httpStatus = 500, envelope = ErrorEnvelope ''API_ERROR'' ''Failed to create group'' nil\<rparr>] \<and>
   written (GetGroups (failingService (ServiceError ''okta: 503'')) request_ok world0) =
     [\<lparr>httpStatus = 500, envelope = ErrorEnvelope ''API_ERROR'' ''Failed to retrieve groups'' nil\<rparr>] \<and>
   written (GetGroup (failingService (ServiceError ''okta: 503'')) request_ok world0) =
     [\<lparr>httpStatus = 500, envelope = ErrorEnvelope ''API_ERROR'' ''Failed to retrieve group'' nil\<rparr>] \<and>
   written (UpdateGroup (failingService (ServiceError ''okta: 503'')) request_ok world0) =
     [\<lparr>httpStatus = 500, envelope = ErrorEnvelope ''API_ERROR'' ''Failed to update group'' nil\<rparr>] \<and>
   written (DeleteGroup (failingService (ServiceError ''okta: 503'')) request_ok world0) =
     [\<lparr>httpStatus = 500, envelope = ErrorEnvelope ''API_ERROR'' ''Failed to delete group'' nil\<rparr>] \<and>
   written (GetGroupMembers (failingService (ServiceError ''okta: 503'')) request_ok world0) =
     [\<lparr>httpStatus = 500, envelope = ErrorEnvelope ''API_ERROR'' ''Failed to retrieve group members'' nil\<rparr>] \<and>
   written (AddUserToGroup (failingService (ServiceError ''okta: 503'')) request_ok world0) =
     [\<lparr>httpStatus = 500, envelope = ErrorEnvelope ''API_ERROR'' ''Failed to add user to group'' nil\<rparr>] \<and>
   written (RemoveUserFromGroup (failingService (ServiceError ''okta: 503'')) request_ok world0) =
     [\<lparr>httpStatus = 500, envelope = ErrorEnvelope ''API_ERROR'' ''Failed to remove user from group'' nil\<rparr>]"
  using failure_response [of request_ok "\<lparr>CreateGroupRequest.Name = ''Engineering''\<rparr>"
      "failingService (ServiceError ''okta: 503'')" world0
      "ServiceError ''okta: 503''" 1 "ServiceError ''okta: 503''" 1 "ServiceError ''okta: 503''" 1
      "\<lparr>UpdateGroupRequest.Name = ''Engineering''\<rparr>" "ServiceError ''okta: 503''" 1
      "ServiceError ''okta: 503''" 1 "ServiceError ''okta: 503''" 1 "ServiceError ''okta: 503''" 1
      "ServiceError ''okta: 503''" 1]
  by (simp add: request_ok_body request_ok_params world0_fields failingService_def)

text \<open>
  C7. Two runs of an operation that differ only in the error the service call returns
  write the same response: the response depends on the operation, not on the error. The
  two runs are on services \<open>svc\<close> and \<open>svc'\<close> whose call fails, with any errors and any
  new states of their own.
\<close>

theorem response_independent_of_error:
  "(Unmarshal_CreateGroupRequest (Body r) = Inr creq \<and>
    svc_CreateGroup svc (Context r) creq (svcState \<sigma>) = (Inl e1, s1) \<and>
    svc_CreateGroup svc' (Context r) creq (svcState \<sigma>) = (Inl e1', s1') \<longrightarrow>
      written (CreateGroup svc r \<sigma>) = written (CreateGroup svc' r \<sigma>)) \<and>
   (svc_GetGroups svc (Context r) (svcState \<sigma>) = (Inl e2, s2) \<and>
    svc_GetGroups svc' (Context r) (svcState \<sigma>) = (Inl e2', s2') \<longrightarrow>
      written (GetGroups svc r \<sigma>) = written (GetGroups svc' r \<sigma>)) \<and>
   (URLParam r ''groupID'' \<noteq> [] \<and>
    svc_GetGroup svc (Context r) (URLParam r ''groupID'') (svcState \<sigma>) = (Inl e3, s3) \<and>
    svc_GetGroup svc' (Context r) (URLParam r ''groupID'') (svcState \<sigma>) = (Inl e3', s3') \<longrightarrow>
      written (GetGroup svc r \<sigma>) = written (GetGroup svc' r \<sigma>)) \<and>
   (URLParam r ''groupID'' \<noteq> [] \<and> Unmarshal_UpdateGroupRequest (Body r) = Inr ureq \<and>
    svc_UpdateGroup svc (Context r) (URLParam r ''groupID'') ureq (svcState \<sigma>) = (Inl e4, s4) \<and>
    svc_UpdateGroup svc' (Context r) (URLParam r ''groupID'') ureq (svcState \<sigma>) = (Inl e4', s4') \<longrightarrow>
      written (UpdateGroup svc r \<sigma>) = written (UpdateGroup svc' r \<sigma>)) \<and>
   (URLParam r ''groupID'' \<noteq> [] \<and>
    svc_DeleteGroup svc (Context r) (URLParam r ''groupID'') (svcState \<sigma>) = (Some e5, s5) \<and>
    svc_DeleteGroup svc' (Context r) (URLParam r ''groupID'') (svcState \<sigma>) = (Some e5', s5') \<longrightarrow>
      written (DeleteGroup svc r \<sigma>) = written (DeleteGroup svc' r \<sigma>)) \<and>
   (URLParam r ''groupID'' \<noteq> [] \<and>
    svc_GetGroupMembers svc (Context r) (URLParam r ''groupID'') (svcState \<sigma>) = (Inl e6, s6) \<and>
    svc_GetGroupMembers svc' (Context r) (URLParam r ''groupID'') (svcState \<sigma>) = (Inl e6', s6') \<longrightarrow>
      written (GetGroupMembers svc r \<sigma>) = written (GetGroupMembers svc' r \<sigma>)) \<and>
   (URLParam r ''groupID'' \<noteq> [] \<and> URLParam r ''userID'' \<noteq> [] \<and>
    svc_AddUserToGroup svc (Context r) (URLParam r ''groupID'') (URLParam r ''userID'')
      (svcState \<sigma>) = (Some e7, s7) \<and>
    svc_AddUserToGroup svc' (Context r) (URLParam r ''groupID'') (URLParam r ''userID'')
      (svcState \<sigma>) = (Some e7', s7') \<longrightarrow>
      written (AddUserToGroup svc r \<sigma>) = written (AddUserToGroup svc' r \<sigma>)) \<and>
   (URLParam r ''groupID'' \<noteq> [] \<and> URLParam r ''userID'' \<noteq> [] \<and>
    svc_RemoveUserFromGroup svc (Context r) (URLParam r ''groupID'') (URLParam r ''userID'')
      (svcState \<sigma>) = (Some e8, s8) \<and>
    svc_RemoveUserFromGroup svc' (Context r) (URLParam r ''groupID'') (URLParam r ''userID'')
      (svcState \<sigma>) = (Some e8', s8') \<longrightarrow>
      written (RemoveUserFromGroup svc r \<sigma>) = written (RemoveUserFromGroup svc' r \<sigma>))"
  by (simp add: methods steps)

text \<open>Two services failing with different errors: the responses agree, while the log of
  the two runs does not, since the error is logged.\<close>

theorem response_independent_of_error_witness:
  "written (CreateGroup (failingService (ServiceError ''okta: 503'')) request_ok world0) =
   written (CreateGroup (failingService (ServiceError ''okta: 401 invalid token'')) request_ok world0) \<and>
   written (GetGroups (failingService (ServiceError ''okta: 503'')) request_ok world0) =
   written (GetGroups (failingService (ServiceError ''okta: 401 invalid token'')) request_ok world0) \<and>
   written (GetGroup (failingService (ServiceError ''okta: 503'')) request_ok world0) =
   written (GetGroup (failingService (ServiceError ''okta: 401 invalid token'')) request_ok world0) \<and>
   written (UpdateGroup (failingService (ServiceError ''okta: 503'')) request_ok world0) =
   written (UpdateGroup (failingService (ServiceError ''okta: 401 invalid token'')) request_ok world0) \<and>
   written (DeleteGroup (failingService (ServiceError ''okta: 503'')) request_ok world0) =
   written (DeleteGroup (failingService (ServiceError ''okta: 401 invalid token'')) request_ok world0) \<and>
   written (GetGroupMembers (failingService (ServiceError ''okta: 503'')) request_ok world0) =
   written (GetGroupMembers (failingService (ServiceError ''okta: 401 invalid token'')) request_ok world0) \<and>
   written (AddUserToGroup (failingService (ServiceError ''okta: 503'')) request_ok world0) =
   written (AddUserToGroup (failingService (ServiceError ''okta: 401 invalid token'')) request_ok world0) \<and>
   written (RemoveUserFromGroup (failingService (ServiceError ''okta: 503'')) request_ok world0) =
   written (RemoveUserFromGroup (failingService (ServiceError ''okta: 401 invalid token'')) request_ok world0) \<and>
   loggers (DeleteGroup (failingService (ServiceError ''okta: 503'')) request_ok world0) 1 \<noteq>
   loggers (DeleteGroup (failingService (ServiceError ''okta: 401 invalid token'')) request_ok world0) 1"
proof -
  have logs:
    "loggers (DeleteGroup (failingService (ServiceError ''okta: 503'')) request_ok world0) 1 \<noteq>
     loggers (DeleteGroup (failingService (ServiceError ''okta: 401 invalid token'')) request_ok world0) 1"
    by (simp add: DeleteGroup_def steps request_ok_params world0_fields failingService_def)
  show ?thesis
    using logs
      response_independent_of_error [of request_ok "\<lparr>CreateGroupRequest.Name = ''Engineering''\<rparr>"
        "failingService (ServiceError ''okta: 503'')" world0
        "ServiceError ''okta: 503''" 1
        "failingService (ServiceError ''okta: 401 invalid token'')"
        "ServiceError ''okta: 401 invalid token''" 1
        "ServiceError ''okta: 503''" 1 "ServiceError ''okta: 401 invalid token''" 1
        "ServiceError ''okta: 503''" 1 "ServiceError ''okta: 401 invalid token''" 1
        "\<lparr>UpdateGroupRequest.Name = ''Engineering''\<rparr>"
        "ServiceError ''okta: 503''" 1 "ServiceError ''okta: 401 invalid token''" 1
        "ServiceError ''okta: 503''" 1 "ServiceError ''okta: 401 invalid token''" 1
        "ServiceError ''okta: 503''" 1 "ServiceError ''okta: 401 invalid token''" 1
        "ServiceError ''okta: 503''" 1 "ServiceError ''okta: 401 invalid token''" 1
        "ServiceError ''okta: 503''" 1 "ServiceError ''okta: 401 invalid token''" 1]
    by (simp add: request_ok_body request_ok_params world0_fields failingService_def)
qed

subsection \<open>Requests that are refused\<close>

text \<open>
  C3. When \<^verbatim>\<open>Decode\<close> returns an error in an invocation of \<^verbatim>\<open>CreateGroup\<close> or
  \<^verbatim>\<open>UpdateGroup\<close>, the method answers 400 with the message \<^verbatim>\<open>Invalid request body\<close>
  and the service is not invoked: no call is made and no service state changes. The
  first two parts say so, the hypothesis being that this run recorded the error \<open>e\<close> of
  a decoding. The next two say when a run does: \<^verbatim>\<open>CreateGroup\<close> whenever the body does
  not decode, \<^verbatim>\<open>UpdateGroup\<close> whenever it does not and the group is given. The last is
  the specification's property for \<^verbatim>\<open>UpdateGroup\<close> on any body that does not decode,
  decoded or not: status 400, an error envelope, no call.
\<close>

theorem invalid_body:
  "(decoded (CreateGroup svc r \<sigma>) = decoded \<sigma> @ [Some e] \<longrightarrow>
      written (CreateGroup svc r \<sigma>) = written \<sigma> @
        [\<lparr>httpStatus = 400, envelope = ErrorEnvelope ''API_ERROR'' ''Invalid request body'' nil\<rparr>] \<and>
      svcCalls (CreateGroup svc r \<sigma>) = svcCalls \<sigma> \<and>
      services (CreateGroup svc r \<sigma>) = services \<sigma>) \<and>
   (decoded (UpdateGroup svc r \<sigma>) = decoded \<sigma> @ [Some e] \<longrightarrow>
      written (UpdateGroup svc r \<sigma>) = written \<sigma> @
        [\<lparr>httpStatus = 400, envelope = ErrorEnvelope ''API_ERROR'' ''Invalid request body'' nil\<rparr>] \<and>
      svcCalls (UpdateGroup svc r \<sigma>) = svcCalls \<sigma> \<and>
      services (UpdateGroup svc r \<sigma>) = services \<sigma>) \<and>
   (Unmarshal_CreateGroupRequest (Body r) = Inl e \<longrightarrow>
      decoded (CreateGroup svc r \<sigma>) = decoded \<sigma> @ [Some e]) \<and>
   (URLParam r ''groupID'' \<noteq> [] \<and> Unmarshal_UpdateGroupRequest (Body r) = Inl e \<longrightarrow>
      decoded (UpdateGroup svc r \<sigma>) = decoded \<sigma> @ [Some e]) \<and>
   (Unmarshal_UpdateGroupRequest (Body r) = Inl e \<longrightarrow>
      (\<exists>message. written (UpdateGroup svc r \<sigma>) = written \<sigma> @
         [\<lparr>httpStatus = 400, envelope = ErrorEnvelope ''API_ERROR'' message nil\<rparr>]) \<and>
      svcCalls (UpdateGroup svc r \<sigma>) = svcCalls \<sigma> \<and>
      services (UpdateGroup svc r \<sigma>) = services \<sigma>)"
  by (simp add: methods steps split: prod.splits sum.splits)

text \<open>The body \<^verbatim>\<open>{name}\<close>, on which the scan reports a syntax error.\<close>

theorem invalid_body_witness:
  "decoded (CreateGroup stubService request_bad_body world0) =
     [Some (SyntaxError ''invalid character 'n' looking for beginning of object key string'')] \<and>
   written (CreateGroup stubService request_bad_body world0) =
     [\<lparr>httpStatus = 400, envelope = ErrorEnvelope ''API_ERROR'' ''Invalid request body'' nil\<rparr>] \<and>
   svcCalls (CreateGroup stubService request_bad_body world0) = [] \<and>
   decoded (UpdateGroup stubService request_bad_body world0) =
     [Some (SyntaxError ''invalid character 'n' looking for beginning of object key string'')] \<and>
   written (UpdateGroup stubService request_bad_body world0) =
     [\<lparr>httpStatus = 400, envelope = ErrorEnvelope ''API_ERROR'' ''Invalid request body'' nil\<rparr>] \<and>
   svcCalls (UpdateGroup stubService request_bad_body world0) = []"
proof -
  have body:
    "Unmarshal_CreateGroupRequest (Body request_bad_body) =
       Inl (SyntaxError ''invalid character 'n' looking for beginning of object key string'')"
    "Unmarshal_UpdateGroupRequest (Body request_bad_body) =
       Inl (SyntaxError ''invalid character 'n' looking for beginning of object key string'')"
    "URLParam request_bad_body ''groupID'' = ''g1''"
    by (simp_all add: request_bad_body_def samples)
  show ?thesis
    using invalid_body [of stubService request_bad_body world0
        "SyntaxError ''invalid character 'n' looking for beginning of object key string''"]
    by (simp add: body world0_fields)
qed

text \<open>
  C4. With an empty \<^verbatim>\<open>groupID\<close>, each of \<^verbatim>\<open>GetGroup\<close>, \<^verbatim>\<open>UpdateGroup\<close>,
  \<^verbatim>\<open>DeleteGroup\<close> and \<^verbatim>\<open>GetGroupMembers\<close> answers 400 with the message
  \<^verbatim>\<open>Group ID is required\<close> and nil details, and the service is not invoked.
\<close>

theorem missing_group_id:
  "URLParam r ''groupID'' = [] \<longrightarrow>
     (written (GetGroup svc r \<sigma>) = written \<sigma> @
        [\<lparr>httpStatus = 400, envelope = ErrorEnvelope ''API_ERROR'' ''Group ID is required'' nil\<rparr>] \<and>
      svcCalls (GetGroup svc r \<sigma>) = svcCalls \<sigma> \<and>
      services (GetGroup svc r \<sigma>) = services \<sigma>) \<and>
     (written (UpdateGroup svc r \<sigma>) = written \<sigma> @
        [\<lparr>httpStatus = 400, envelope = ErrorEnvelope ''API_ERROR'' ''Group ID is required'' nil\<rparr>] \<and>
      svcCalls (UpdateGroup svc r \<sigma>) = svcCalls \<sigma> \<and>
      services (UpdateGroup svc r \<sigma>) = services \<sigma>) \<and>
     (written (DeleteGroup svc r \<sigma>) = written \<sigma> @
        [\<lparr>httpStatus = 400, envelope = ErrorEnvelope ''API_ERROR'' ''Group ID is required'' nil\<rparr>] \<and>
      svcCalls (DeleteGroup svc r \<sigma>) = svcCalls \<sigma> \<and>
      services (DeleteGroup svc r \<sigma>) = services \<sigma>) \<and>
     (written (GetGroupMembers svc r \<sigma>) = written \<sigma> @
        [\<lparr>httpStatus = 400, envelope = ErrorEnvelope ''API_ERROR'' ''Group ID is required'' nil\<rparr>] \<and>
      svcCalls (GetGroupMembers svc r \<sigma>) = svcCalls \<sigma> \<and>
      services (GetGroupMembers svc r \<sigma>) = services \<sigma>)"
  by (simp add: methods steps)

theorem missing_group_id_witness:
  "URLParam request_no_params ''groupID'' = [] \<and>
   written (GetGroup stubService request_no_params world0) =
     [\<lparr>httpStatus = 400, envelope = ErrorEnvelope ''API_ERROR'' ''Group ID is required'' nil\<rparr>] \<and>
   svcCalls (GetGroup stubService request_no_params world0) = [] \<and>
   written (UpdateGroup stubService request_no_params world0) =
     [\<lparr>httpStatus = 400, envelope = ErrorEnvelope ''API_ERROR'' ''Group ID is required'' nil\<rparr>] \<and>
   svcCalls (UpdateGroup stubService request_no_params world0) = [] \<and>
   written (DeleteGroup stubService request_no_params world0) =
     [\<lparr>httpStatus = 400, envelope = ErrorEnvelope ''API_ERROR'' ''Group ID is required'' nil\<rparr>] \<and>
   svcCalls (DeleteGroup stubService request_no_params world0) = [] \<and>
   written (GetGroupMembers stubService request_no_params world0) =
     [\<lparr>httpStatus = 400, envelope = ErrorEnvelope ''API_ERROR'' ''Group ID is required'' nil\<rparr>] \<and>
   svcCalls (GetGroupMembers stubService request_no_params world0) = []"
  using missing_group_id [of request_no_params stubService world0]
  by (simp add: request_no_params_ids world0_fields)

text \<open>
  C5. With an empty \<^verbatim>\<open>groupID\<close>, an empty \<^verbatim>\<open>userID\<close>, or both, \<^verbatim>\<open>AddUserToGroup\<close>
  and \<^verbatim>\<open>RemoveUserFromGroup\<close> answer 400 with the message
  \<^verbatim>\<open>Both Group ID and User ID are required\<close>, and the service is not invoked.
\<close>

theorem missing_group_or_user_id:
  "URLParam r ''groupID'' = [] \<or> URLParam r ''userID'' = [] \<longrightarrow>
     (written (AddUserToGroup svc r \<sigma>) = written \<sigma> @
        [\<lparr>httpStatus = 400,
          envelope = ErrorEnvelope ''API_ERROR'' ''Both Group ID and User ID are required'' nil\<rparr>] \<and>
      svcCalls (AddUserToGroup svc r \<sigma>) = svcCalls \<sigma> \<and>
      services (AddUserToGroup svc r \<sigma>) = services \<sigma>) \<and>
     (written (RemoveUserFromGroup svc r \<sigma>) = written \<sigma> @
        [\<lparr>httpStatus = 400,
          envelope = ErrorEnvelope ''API_ERROR'' ''Both Group ID and User ID are required'' nil\<rparr>] \<and>
      svcCalls (RemoveUserFromGroup svc r \<sigma>) = svcCalls \<sigma> \<and>
      services (RemoveUserFromGroup svc r \<sigma>) = services \<sigma>)"
  by (auto simp add: methods steps)

text \<open>The scenario \<^verbatim>\<open>PUT /groups/g1/members/\<close> of the specification, and the same
  request as a removal.\<close>

theorem missing_group_or_user_id_witness:
  "URLParam request_no_user ''groupID'' = ''g1'' \<and> URLParam request_no_user ''userID'' = [] \<and>
   written (AddUserToGroup stubService request_no_user world0) =
     [\<lparr>httpStatus = 400,
       envelope = ErrorEnvelope ''API_ERROR'' ''Both Group ID and User ID are required'' nil\<rparr>] \<and>
   svcCalls (AddUserToGroup stubService request_no_user world0) = [] \<and>
   written (RemoveUserFromGroup stubService request_no_user world0) =
     [\<lparr>httpStatus = 400,
       envelope = ErrorEnvelope ''API_ERROR'' ''Both Group ID and User ID are required'' nil\<rparr>] \<and>
   svcCalls (RemoveUserFromGroup stubService request_no_user world0) = []"
  using missing_group_or_user_id [of request_no_user stubService world0]
  by (simp add: request_no_user_ids world0_fields)

text \<open>
  C8. \<^verbatim>\<open>UpdateGroup\<close> checks the route parameter before it decodes the body. With an
  empty \<^verbatim>\<open>groupID\<close> the answer is 400 \<^verbatim>\<open>Group ID is required\<close>, nothing is decoded, and
  the run is the same whatever body \<open>b\<close> the request carries. A run that decodes, or that
  answers 400 \<^verbatim>\<open>Invalid request body\<close>, has a non-empty \<^verbatim>\<open>groupID\<close>; and with a
  non-empty \<^verbatim>\<open>groupID\<close> the body is decoded, once.
\<close>

theorem update_checks_id_before_body:
  "(URLParam r ''groupID'' = [] \<longrightarrow>
      written (UpdateGroup svc r \<sigma>) = written \<sigma> @
        [\<lparr>httpStatus = 400, envelope = ErrorEnvelope ''API_ERROR'' ''Group ID is required'' nil\<rparr>] \<and>
      decoded (UpdateGroup svc r \<sigma>) = decoded \<sigma> \<and>
      UpdateGroup svc (r\<lparr>Body := b\<rparr>) \<sigma> = UpdateGroup svc r \<sigma>) \<and>
   (decoded (UpdateGroup svc r \<sigma>) \<noteq> decoded \<sigma> \<longrightarrow> URLParam r ''groupID'' \<noteq> []) \<and>
   (written (UpdateGroup svc r \<sigma>) = written \<sigma> @
      [\<lparr>httpStatus = 400, envelope = ErrorEnvelope ''API_ERROR'' ''Invalid request body'' nil\<rparr>]
      \<longrightarrow> URLParam r ''groupID'' \<noteq> []) \<and>
   (URLParam r ''groupID'' \<noteq> [] \<longrightarrow>
      decoded (UpdateGroup svc r \<sigma>) =
        decoded \<sigma> @
          [case Unmarshal_UpdateGroupRequest (Body r) of Inl err \<Rightarrow> Some err | Inr req \<Rightarrow> None])"
  by (auto simp add: UpdateGroup_def URLParam_def steps split: prod.splits sum.splits)

text \<open>A body that is not JSON: without a group it is not looked at, with a group it is
  decoded and refused.\<close>

theorem update_checks_id_before_body_witness:
  "URLParam request_no_params_bad_body ''groupID'' = [] \<and>
   written (UpdateGroup stubService request_no_params_bad_body world0) =
     [\<lparr>httpStatus = 400, envelope = ErrorEnvelope ''API_ERROR'' ''Group ID is required'' nil\<rparr>] \<and>
   decoded (UpdateGroup stubService request_no_params_bad_body world0) = [] \<and>
   UpdateGroup stubService (request_no_params_bad_body\<lparr>Body := body_engineering\<rparr>) world0 =
     UpdateGroup stubService request_no_params_bad_body world0 \<and>
   URLParam request_bad_body ''groupID'' = ''g1'' \<and>
   decoded (UpdateGroup stubService request_bad_body world0) =
     [Some (SyntaxError ''invalid character 'n' looking for beginning of object key string'')]"
proof -
  have ids:
    "URLParam request_no_params_bad_body ''groupID'' = []"
    "URLParam request_bad_body ''groupID'' = ''g1''"
    "Unmarshal_UpdateGroupRequest (Body request_bad_body) =
       Inl (SyntaxError ''invalid character 'n' looking for beginning of object key string'')"
    by (simp_all add: request_no_params_bad_body_def request_bad_body_def samples)
  show ?thesis
    using update_checks_id_before_body [of request_no_params_bad_body stubService world0
        body_engineering]
      update_checks_id_before_body [of request_bad_body stubService world0 body_engineering]
    by (simp add: ids world0_fields)
qed

subsection \<open>The error envelope\<close>

text \<open>
  C6. Every invocation writes exactly one response. If it is an error response, the code
  of its envelope is \<^verbatim>\<open>API_ERROR\<close>, its details are nil and its status is 400 or 500;
  a success response has status 200 or 201, so a response with status 400 or 500 is
  such an error envelope.
\<close>

theorem error_envelope:
  "\<exists>resp. written (serve op svc r \<sigma>) = written \<sigma> @ [resp] \<and>
     (case envelope resp of
        SuccessEnvelope message d \<Rightarrow> httpStatus resp = 200 \<or> httpStatus resp = 201
      | ErrorEnvelope code message details \<Rightarrow>
          code = ''API_ERROR'' \<and> details = nil \<and> (httpStatus resp = 400 \<or> httpStatus resp = 500))"
  by (cases op) (simp_all add: methods steps split: prod.splits sum.splits option.splits)

theorem error_envelope_witness:
  "written (serve OpGetGroup stubService request_no_params world0) =
     [\<lparr>httpStatus = 400, envelope = ErrorEnvelope ''API_ERROR'' ''Group ID is required'' nil\<rparr>] \<and>
   written (serve OpDeleteGroup (failingService (ServiceError ''okta: 503'')) request_ok world0) =
     [\<lparr>httpStatus = 500, envelope = ErrorEnvelope ''API_ERROR'' ''Failed to delete group'' nil\<rparr>]"
  using error_envelope [of OpGetGroup stubService request_no_params world0]
    error_envelope [of OpDeleteGroup "failingService (ServiceError ''okta: 503'')" request_ok world0]
  by (simp add: GetGroup_def DeleteGroup_def steps request_no_params_ids request_ok_params
      world0_fields failingService_def)

subsection \<open>The handler keeps no state\<close>

text \<open>
  C9. No method assigns to the struct its receiver points to: after an invocation, and
  after any sequence of invocations, \<^verbatim>\<open>log\<close> and \<^verbatim>\<open>groupsSvc\<close> are what they were, and
  the struct has no other field. An invocation does not depend on the ones before it
  either, except through the service: from two worlds in which the service is in the
  same state, whatever was logged, decoded, called or written before, it writes the same
  responses.
\<close>

theorem handler_unchanged:
  "this (serve op svc r \<sigma>) = this \<sigma> \<and>
   this (serveAll svc invs \<sigma>) = this \<sigma> \<and>
   (svcState \<sigma> = svcState \<sigma>' \<longrightarrow>
      responses \<sigma> (serve op svc r \<sigma>) = responses \<sigma>' (serve op svc r \<sigma>'))"
proof (intro conjI impI)
  show one: "this (serve op svc r \<sigma>) = this \<sigma>" for op r and \<sigma> :: "'a World"
    by (cases op) (simp_all add: methods steps split: prod.splits sum.splits option.splits)
  show "this (serveAll svc invs \<sigma>) = this \<sigma>"
    by (induction invs arbitrary: \<sigma>) (auto simp add: one)
  show "responses \<sigma> (serve op svc r \<sigma>) = responses \<sigma>' (serve op svc r \<sigma>')"
    if "svcState \<sigma> = svcState \<sigma>'"
    using that
    by (cases op)
      (simp_all add: responses_def methods steps split: prod.splits sum.splits option.splits)
qed

text \<open>Three invocations in a row leave the handler as \<^verbatim>\<open>New\<close> built it; a deletion
  answers the same in a fresh world and after a refused request.\<close>

theorem handler_unchanged_witness:
  "this (serveAll stubService
      [(OpCreateGroup, request_ok), (OpGetGroup, request_no_params), (OpDeleteGroup, request_ok)]
      world0) = New 1 2 \<and>
   svcState world0 = svcState (serve OpGetGroup stubService request_no_params world0) \<and>
   responses (serve OpGetGroup stubService request_no_params world0)
     (serve OpDeleteGroup stubService request_ok
        (serve OpGetGroup stubService request_no_params world0)) =
     [\<lparr>httpStatus = 200, envelope = SuccessEnvelope ''Group deleted successfully'' nil\<rparr>] \<and>
   responses world0 (serve OpDeleteGroup stubService request_ok world0) =
     [\<lparr>httpStatus = 200, envelope = SuccessEnvelope ''Group deleted successfully'' nil\<rparr>]"
proof -
  have same: "svcState world0 = svcState (serve OpGetGroup stubService request_no_params world0)"
    by (simp add: GetGroup_def steps request_no_params_ids)
  have fresh: "responses world0 (serve OpDeleteGroup stubService request_ok world0) =
     [\<lparr>httpStatus = 200, envelope = SuccessEnvelope ''Group deleted successfully'' nil\<rparr>]"
    by (simp add: responses_def DeleteGroup_def steps request_ok_params world0_fields
        stubService_def)
  show ?thesis
    using same fresh
      handler_unchanged [of OpDeleteGroup stubService request_ok world0
        "[(OpCreateGroup, request_ok), (OpGetGroup, request_no_params), (OpDeleteGroup, request_ok)]"
        "serve OpGetGroup stubService request_no_params world0"]
    by (simp add: world0_fields New_def)
qed

subsection \<open>No check of the decoded fields\<close>

text \<open>Decoding an object that has only name members, each a string or \<^verbatim>\<open>null\<close>,
  saves no error.\<close>

lemma object_names_only:
  "\<forall>(k, v) \<in> set kvs. EqualFold k ''name'' \<and> (v = JNull \<or> (\<exists>s. v = JString s)) \<Longrightarrow>
   snd (object kvs (name, None)) = None"
  by (induction kvs arbitrary: name) auto

lemma Unmarshal_names_only:
  assumes "\<forall>(k, v) \<in> set kvs. EqualFold k ''name'' \<and> (v = JNull \<or> (\<exists>s. v = JString s))"
  shows "\<exists>name. Unmarshal (FirstValue (JObject kvs)) = Inr name"
proof -
  obtain name saved where o: "object kvs ([], None) = (name, saved)"
    by (cases "object kvs ([], None)")
  with object_names_only [OF assms, of "[]"] have "saved = None" by simp
  with o show ?thesis by (simp add: Unmarshal_def)
qed

text \<open>
  C10, as stated, fails: a body can be well-formed JSON and still not decode. The array
  \<^verbatim>\<open>[]\<close> cannot be stored in a struct, and the number in \<^verbatim>\<open>{"name":5}\<close> cannot be
  stored in a string; \<^verbatim>\<open>Decode\<close> returns a type error, the answer is 400
  \<^verbatim>\<open>Invalid request body\<close> and the service is not called.
\<close>

theorem typed_body_counterexample:
  "Unmarshal_CreateGroupRequest (FirstValue (JArray [])) = Inl (UnmarshalTypeError ''array'' []) \<and>
   written (CreateGroup stubService (request [] (FirstValue (JArray []))) world0) =
     [\<lparr>httpStatus = 400, envelope = ErrorEnvelope ''API_ERROR'' ''Invalid request body'' nil\<rparr>] \<and>
   svcCalls (CreateGroup stubService (request [] (FirstValue (JArray []))) world0) = [] \<and>
   written (UpdateGroup stubService (request [(''groupID'', ''g1'')] (FirstValue (JArray []))) world0) =
     [\<lparr>httpStatus = 400, envelope = ErrorEnvelope ''API_ERROR'' ''Invalid request body'' nil\<rparr>] \<and>
   svcCalls (UpdateGroup stubService (request [(''groupID'', ''g1'')] (FirstValue (JArray []))) world0) = [] \<and>
   written (CreateGroup stubService
       (request [] (FirstValue (JObject [(''name'', JNumber ''5'')]))) world0) =
     [\<lparr>httpStatus = 400, envelope = ErrorEnvelope ''API_ERROR'' ''Invalid request body'' nil\<rparr>]"
  by (simp add: methods steps samples)

text \<open>
  C10, amended. Neither method checks a field of the decoded struct. Whenever decoding
  succeeds, the struct goes to the service as decoded, whatever its name: this holds for
  \<^verbatim>\<open>null\<close>, for \<^verbatim>\<open>{}\<close>, for an empty name, and for every object that has only name
  members holding a string or \<^verbatim>\<open>null\<close>. The answer 400 \<^verbatim>\<open>Invalid request body\<close> is
  written exactly when \<^verbatim>\<open>Decode\<close> returns an error (for \<^verbatim>\<open>UpdateGroup\<close>: and the
  group is given), never for a field that is missing.
\<close>

theorem no_presence_check:
  "(Unmarshal_CreateGroupRequest (Body r) = Inr creq \<longrightarrow>
      decoded (CreateGroup svc r \<sigma>) = decoded \<sigma> @ [None] \<and>
      svcCalls (CreateGroup svc r \<sigma>) = svcCalls \<sigma> @ [Call_CreateGroup (Context r) creq]) \<and>
   (URLParam r ''groupID'' \<noteq> [] \<and> Unmarshal_UpdateGroupRequest (Body r) = Inr ureq \<longrightarrow>
      decoded (UpdateGroup svc r \<sigma>) = decoded \<sigma> @ [None] \<and>
      svcCalls (UpdateGroup svc r \<sigma>) =
        svcCalls \<sigma> @ [Call_UpdateGroup (Context r) (URLParam r ''groupID'') ureq]) \<and>
   ((written (CreateGroup svc r \<sigma>) = written \<sigma> @
       [\<lparr>httpStatus = 400, envelope = ErrorEnvelope ''API_ERROR'' ''Invalid request body'' nil\<rparr>]) =
    (\<exists>e. Unmarshal_CreateGroupRequest (Body r) = Inl e)) \<and>
   ((written (UpdateGroup svc r \<sigma>) = written \<sigma> @
       [\<lparr>httpStatus = 400, envelope = ErrorEnvelope ''API_ERROR'' ''Invalid request body'' nil\<rparr>]) =
    (URLParam r ''groupID'' \<noteq> [] \<and> (\<exists>e. Unmarshal_UpdateGroupRequest (Body r) = Inl e))) \<and>
   ((\<forall>(k, v) \<in> set kvs. EqualFold k ''name'' \<and> (v = JNull \<or> (\<exists>s. v = JString s))) \<longrightarrow>
      (\<exists>req. Unmarshal_CreateGroupRequest (FirstValue (JObject kvs)) = Inr req) \<and>
      (\<exists>req. Unmarshal_UpdateGroupRequest (FirstValue (JObject kvs)) = Inr req)) \<and>
   Unmarshal_CreateGroupRequest (FirstValue (JObject [])) = Inr \<lparr>CreateGroupRequest.Name = []\<rparr> \<and>
   Unmarshal_UpdateGroupRequest (FirstValue (JObject [])) = Inr \<lparr>UpdateGroupRequest.Name = []\<rparr> \<and>
   Unmarshal_CreateGroupRequest (FirstValue (JObject [(''name'', JString [])])) =
     Inr \<lparr>CreateGroupRequest.Name = []\<rparr> \<and>
   Unmarshal_UpdateGroupRequest (FirstValue (JObject [(''name'', JString [])])) =
     Inr \<lparr>UpdateGroupRequest.Name = []\<rparr> \<and>
   Unmarshal_CreateGroupRequest (FirstValue JNull) = Inr \<lparr>CreateGroupRequest.Name = []\<rparr> \<and>
   Unmarshal_UpdateGroupRequest (FirstValue JNull) = Inr \<lparr>UpdateGroupRequest.Name = []\<rparr>"
proof (intro conjI)
  show "Unmarshal_CreateGroupRequest (Body r) = Inr creq \<longrightarrow>
      decoded (CreateGroup svc r \<sigma>) = decoded \<sigma> @ [None] \<and>
      svcCalls (CreateGroup svc r \<sigma>) = svcCalls \<sigma> @ [Call_CreateGroup (Context r) creq]"
    by (simp add: CreateGroup_def steps split: prod.splits sum.splits)
  show "URLParam r ''groupID'' \<noteq> [] \<and> Unmarshal_UpdateGroupRequest (Body r) = Inr ureq \<longrightarrow>
      decoded (UpdateGroup svc r \<sigma>) = decoded \<sigma> @ [None] \<and>
      svcCalls (UpdateGroup svc r \<sigma>) =
        svcCalls \<sigma> @ [Call_UpdateGroup (Context r) (URLParam r ''groupID'') ureq]"
    by (simp add: UpdateGroup_def steps split: prod.splits sum.splits)
  show "(written (CreateGroup svc r \<sigma>) = written \<sigma> @
       [\<lparr>httpStatus = 400, envelope = ErrorEnvelope ''API_ERROR'' ''Invalid request body'' nil\<rparr>]) =
    (\<exists>e. Unmarshal_CreateGroupRequest (Body r) = Inl e)"
    by (cases "Unmarshal_CreateGroupRequest (Body r)")
      (simp_all add: CreateGroup_def steps split: prod.splits sum.splits)
  show "(written (UpdateGroup svc r \<sigma>) = written \<sigma> @
       [\<lparr>httpStatus = 400, envelope = ErrorEnvelope ''API_ERROR'' ''Invalid request body'' nil\<rparr>]) =
    (URLParam r ''groupID'' \<noteq> [] \<and> (\<exists>e. Unmarshal_UpdateGroupRequest (Body r) = Inl e))"
    by (cases "Unmarshal_UpdateGroupRequest (Body r)")
      (simp_all add: UpdateGroup_def steps split: prod.splits sum.splits)
  show "(\<forall>(k, v) \<in> set kvs. EqualFold k ''name'' \<and> (v = JNull \<or> (\<exists>s. v = JString s))) \<longrightarrow>
      (\<exists>req. Unmarshal_CreateGroupRequest (FirstValue (JObject kvs)) = Inr req) \<and>
      (\<exists>req. Unmarshal_UpdateGroupRequest (FirstValue (JObject kvs)) = Inr req)"
  proof
    assume "\<forall>(k, v) \<in> set kvs. EqualFold k ''name'' \<and> (v = JNull \<or> (\<exists>s. v = JString s))"
    then obtain name where "Unmarshal (FirstValue (JObject kvs)) = Inr name"
      using Unmarshal_names_only by blast
    then show "(\<exists>req. Unmarshal_CreateGroupRequest (FirstValue (JObject kvs)) = Inr req) \<and>
      (\<exists>req. Unmarshal_UpdateGroupRequest (FirstValue (JObject kvs)) = Inr req)"
      by (simp add: Unmarshal_CreateGroupRequest_def Unmarshal_UpdateGroupRequest_def)
  qed
qed (simp_all add: Unmarshal_CreateGroupRequest_def Unmarshal_UpdateGroupRequest_def
       Unmarshal_def EqualFold_def toLower_def)

text \<open>The body \<^verbatim>\<open>{}\<close>: the empty name reaches the service, which here creates the
  group; and the keys \<^verbatim>\<open>Name\<close> and \<^verbatim>\<open>NAME\<close> are name members.\<close>

theorem no_presence_check_witness:
  "svcCalls (CreateGroup stubService request_empty_object world0) =
     [Call_CreateGroup (Ctx 0) \<lparr>CreateGroupRequest.Name = []\<rparr>] \<and>
   written (CreateGroup stubService request_empty_object world0) =
     [\<lparr>httpStatus = 201,
       envelope = SuccessEnvelope (''Group '' @ [CHR 0x27, CHR 0x27] @ '' created successfully'')
         (AGroup \<lparr>ID = ''g1'', Name = []\<rparr>)\<rparr>] \<and>
   svcCalls (UpdateGroup stubService request_empty_object world0) =
     [Call_UpdateGroup (Ctx 0) ''g1'' \<lparr>UpdateGroupRequest.Name = []\<rparr>] \<and>
   (\<exists>req. Unmarshal_CreateGroupRequest
      (FirstValue (JObject [(''Name'', JNull), (''NAME'', JString ''Ops'')])) = Inr req)"
  using no_presence_check [of request_empty_object "\<lparr>CreateGroupRequest.Name = []\<rparr>" stubService
      world0 "\<lparr>UpdateGroupRequest.Name = []\<rparr>" "[(''Name'', JNull), (''NAME'', JString ''Ops'')]"]
  by (simp add: request_empty_object_def CreateGroup_def UpdateGroup_def steps samples)

end
